theory Spec2Isabelle
  imports Main "HOL-Library.Word"
begin

section \<open>Go values used by package gomon\<close>

subsection \<open>Errors and formatting\<close>

text \<open>
  An error is either produced by a library (and carries its message) or built by
  \<^verbatim>\<open>fmt.Errorf\<close>. The first argument of \<open>Errorf\<close> is the literal format string of
  the source; the operands follow in order, each tagged with the verb that consumes it:
  \<^verbatim>\<open>%q\<close> takes a string, \<^verbatim>\<open>%w\<close> takes an error and wraps it.
\<close>

datatype error =
    LibError string
  | Errorf string "operand list"
and operand =
    OpQ string
  | OpW error

text \<open>\<^verbatim>\<open>errors.Unwrap\<close>: the operand of \<^verbatim>\<open>%w\<close>, if there is one.\<close>

fun wrapped :: "operand list \<Rightarrow> error option" where
  "wrapped [] = None"
| "wrapped (OpW e # ops) = Some e"
| "wrapped (OpQ s # ops) = wrapped ops"

fun Unwrap :: "error \<Rightarrow> error option" where
  "Unwrap (LibError s) = None"
| "Unwrap (Errorf f ops) = wrapped ops"

text \<open>The strings quoted into an error by \<^verbatim>\<open>%q\<close>.\<close>

fun quoted :: "operand list \<Rightarrow> string list" where
  "quoted [] = []"
| "quoted (OpQ s # ops) = s # quoted ops"
| "quoted (OpW e # ops) = quoted ops"

fun quotedIn :: "error \<Rightarrow> string list" where
  "quotedIn (LibError s) = []"
| "quotedIn (Errorf f ops) = quoted ops"

text \<open>
  \<^verbatim>\<open>fmt.Sprintf\<close> for the formats of the source: every verb is a percent sign and
  one letter, and there is one operand per verb. The operands are passed already
  rendered (\<^verbatim>\<open>%s\<close> by \<^verbatim>\<open>String()\<close>, \<^verbatim>\<open>%v\<close> by \<^verbatim>\<open>Error()\<close>, \<^verbatim>\<open>%d\<close> in decimal).
\<close>

fun Sprintf :: "string \<Rightarrow> string list \<Rightarrow> string" where
  "Sprintf [] args = []"
| "Sprintf (c # fmt) args =
     (if c = CHR ''%'' then
        (case (fmt, args) of
           (v # fmt', a # args') \<Rightarrow> a @ Sprintf fmt' args'
         | _ \<Rightarrow> c # Sprintf fmt args)
      else c # Sprintf fmt args)"

text \<open>Decimal rendering of an integer, as \<^verbatim>\<open>%d\<close> prints it.\<close>

fun digits :: "nat \<Rightarrow> string" where
  "digits n = (if n < 10 then [''0123456789'' ! n]
               else digits (n div 10) @ [''0123456789'' ! (n mod 10)])"

declare digits.simps [simp del]

definition Itoa :: "int \<Rightarrow> string" where
  "Itoa i = (if i < 0 then CHR ''-'' # digits (nat (- i)) else digits (nat i))"

subsection \<open>Durations and instants\<close>

text \<open>\<^verbatim>\<open>time.Duration\<close> is a signed 64-bit count of nanoseconds.\<close>

type_synonym Duration = "64 word"

definition Second :: Duration where
  "Second = 1000000000"

text \<open>
  A \<^verbatim>\<open>time.Time\<close> holds a wall clock reading (nanoseconds since the Unix epoch) and,
  when it comes from \<^verbatim>\<open>time.Now()\<close>, a monotonic clock reading. Comparisons and
  subtraction use the monotonic readings when both instants have one, and the wall
  clock readings otherwise.
\<close>

record Time =
  wall :: int
  mono :: "int option"

definition Before :: "Time \<Rightarrow> Time \<Rightarrow> bool" where
  "Before t u = (case (mono t, mono u) of
                   (Some a, Some b) \<Rightarrow> a < b
                 | _ \<Rightarrow> wall t < wall u)"

definition After :: "Time \<Rightarrow> Time \<Rightarrow> bool" where
  "After t u = (case (mono t, mono u) of
                  (Some a, Some b) \<Rightarrow> a > b
                | _ \<Rightarrow> wall t > wall u)"

text \<open>\<^verbatim>\<open>t.Sub(u)\<close> saturates at the largest and smallest duration.\<close>

definition Sub :: "Time \<Rightarrow> Time \<Rightarrow> Duration" where
  "Sub t u =
     (let d = (case (mono t, mono u) of
                 (Some a, Some b) \<Rightarrow> a - b
               | _ \<Rightarrow> wall t - wall u)
      in if d < - (2 ^ 63) then word_of_int (- (2 ^ 63))
         else if 2 ^ 63 - 1 < d then word_of_int (2 ^ 63 - 1)
         else word_of_int d)"

definition UnixNano :: "Time \<Rightarrow> 64 word" where
  "UnixNano t = word_of_int (wall t)"

definition zeroTime :: Time where
  "zeroTime = \<lparr>wall = - 62135596800000000000, mono = None\<rparr>"

subsection \<open>URLs, requests and responses\<close>

record URL =
  Scheme :: string
  Host :: string
  Path :: string
  RawQuery :: string
  Fragment :: string

text \<open>\<^verbatim>\<open>http.Header\<close> maps a canonical key to its values; \<open>Set\<close> replaces them.\<close>

type_synonym Header = "(string \<times> string list) list"

definition Header_Set :: "Header \<Rightarrow> string \<Rightarrow> string \<Rightarrow> Header" where
  "Header_Set h key v = (key, [v]) # filter (\<lambda>kv. fst kv \<noteq> key) h"

definition Header_Get :: "Header \<Rightarrow> string \<Rightarrow> string list option" where
  "Header_Get h key = map_of h key"

datatype Context = Background | Done error

record Request =
  ctx :: Context
  Method :: string
  URL :: URL
  Header :: Header

subsection \<open>Certificates\<close>

record pkixName =
  CommonName :: string
  Organization :: "string list"

record Certificate =
  Subject :: pkixName
  Issuer :: pkixName
  NotBefore :: Time
  NotAfter :: Time
  DNSNames :: "string list"

record ConnectionState =
  PeerCertificates :: "Certificate list"

type_synonym CertPool = "Certificate list"

definition NewCertPool :: CertPool where
  "NewCertPool = []"

definition AddCert :: "CertPool \<Rightarrow> Certificate \<Rightarrow> CertPool" where
  "AddCert pool c = (if c \<in> set pool then pool else pool @ [c])"

record VerifyOptions =
  DNSName :: string
  Roots :: CertPool
  Intermediates :: CertPool

text \<open>
  A response carries the status code, the TLS state of the connection (if any), the
  request that produced it (the last one when redirects were followed) and its body:
  the bytes the reader yields and the error that ends the stream, if it is not the
  end of file.
\<close>

record Response =
  StatusCode :: int
  TLS :: "ConnectionState option"
  Request :: Request
  Body :: "string \<times> error option"

section \<open>The data of gomon.go\<close>

record Config =
  URL :: string
  Method :: string
  RequestTimeout :: Duration
  IgnoreCert :: bool
  DontFollowRedirect :: bool
  UpStatusCodes :: "int list"
  Headers :: Header

datatype RedirectPolicy = noRedirect

text \<open>
  The \<^verbatim>\<open>http.Client\<close> of a monitor: its timeout, the \<^verbatim>\<open>InsecureSkipVerify\<close> flag
  of its transport's TLS configuration and its redirect policy (nil by default).
\<close>

record Client =
  Timeout :: Duration
  InsecureSkipVerify :: bool
  CheckRedirect :: "RedirectPolicy option"

record Monitor =
  client :: Client
  config :: Config

record CertInfo =
  Subject :: string
  Issuer :: string
  ValidFrom :: Time
  ValidTo :: Time
  DNSNames :: "string list"
  IsValid :: bool
  ErrorMsg :: string

record CheckResult =
  URL :: string
  StatusCode :: int
  Start :: Time
  End :: Time
  CertInfo :: "CertInfo option"

section \<open>The environment\<close>

text \<open>
  The standard library and the outside world are parameters of the model. The pure
  functions of \<^verbatim>\<open>net/url\<close>, \<^verbatim>\<open>strconv\<close>, \<^verbatim>\<open>time\<close> and \<^verbatim>\<open>crypto/x509/pkix\<close> come
  first; then the effects: the clock (its reading at the n-th call of
  \<^verbatim>\<open>time.Now()\<close>), request construction, the round trip of the client, the system
  trust store and chain verification.
\<close>

record Env =
  url_Parse :: "string \<Rightarrow> error + URL"
  URL_String :: "URL \<Rightarrow> string"
  URL_Hostname :: "URL \<Rightarrow> string"
  Quote :: "string \<Rightarrow> string"
  Time_String :: "Time \<Rightarrow> string"
  Name_String :: "pkixName \<Rightarrow> string"
  clock :: "nat \<Rightarrow> int \<times> int"
  NewRequestWithContext :: "Context \<Rightarrow> string \<Rightarrow> string \<Rightarrow> error + Request"
  Client_Do :: "Client \<Rightarrow> Request \<Rightarrow> error + Response"
  SystemCertPool :: "error + CertPool"
  Certificate_Verify :: "Certificate \<Rightarrow> VerifyOptions \<Rightarrow> error option"

text \<open>\<^verbatim>\<open>err.Error()\<close>: the message of an error.\<close>

fun Error :: "Env \<Rightarrow> error \<Rightarrow> string"
  and render :: "Env \<Rightarrow> operand \<Rightarrow> string" where
  "Error env (LibError s) = s"
| "Error env (Errorf f ops) = Sprintf f (map (render env) ops)"
| "render env (OpQ s) = Quote env s"
| "render env (OpW e) = Error env e"

section \<open>Construction of a monitor\<close>

text \<open>\<^verbatim>\<open>sanitizeURL\<close> returns a string and an error, of which the error may be nil.\<close>

definition sanitizeURL :: "Env \<Rightarrow> string \<Rightarrow> string \<times> error option" where
  "sanitizeURL env rawURL =
     (case url_Parse env rawURL of
        Inl err \<Rightarrow> ('''', Some err)
      | Inr parsedURL \<Rightarrow>
          if Scheme parsedURL = '''' then
            ('''', Some (Errorf ''missing scheme %q'' [OpQ rawURL]))
          else if Host parsedURL = '''' then
            ('''', Some (Errorf ''missing host %q'' [OpQ rawURL]))
          else (URL_String env parsedURL, None))"

text \<open>\<^verbatim>\<open>NewMonitor\<close> returns a pointer and an error; either may be nil.\<close>

definition NewMonitor :: "Env \<Rightarrow> Config \<Rightarrow> Monitor option \<times> error option" where
  "NewMonitor env config0 =
     (let config1 = (if RequestTimeout config0 = 0
                     then config0\<lparr>RequestTimeout := 10 * Second\<rparr> else config0);
          config2 = (if length (UpStatusCodes config1) = 0
                     then config1\<lparr>UpStatusCodes := [200, 201]\<rparr> else config1)
      in if Config.Method config2 = '''' then
           (None, Some (Errorf ''missing HTTP method'' []))
         else if sint (RequestTimeout config2) < 0 then
           (None, Some (Errorf ''negative timeout'' []))
         else
           (case sanitizeURL env (Config.URL config2) of
              (validURL, Some err) \<Rightarrow> (None, Some (Errorf ''invalid URL: %w'' [OpW err]))
            | (validURL, None) \<Rightarrow>
                let config3 = config2\<lparr>Config.URL := validURL\<rparr>;
                    client0 = \<lparr>Timeout = RequestTimeout config3,
                               InsecureSkipVerify = IgnoreCert config3,
                               CheckRedirect = None\<rparr>;
                    client1 = (if DontFollowRedirect config3
                               then client0\<lparr>CheckRedirect := Some noRedirect\<rparr>
                               else client0)
                in (Some \<lparr>client = client1, config = config3\<rparr>, None)))"

section \<open>Status classification\<close>

text \<open>
  The loop of \<^verbatim>\<open>isSuccessStatus\<close> over the accepted codes: it returns at the first
  code that matches. Status codes are Go integers; they are only compared, so they are
  integers here.
\<close>

fun rangeCodes :: "int list \<Rightarrow> int \<Rightarrow> bool" where
  "rangeCodes [] code = False"
| "rangeCodes (validCode # rest) code =
     (if code = validCode then True else rangeCodes rest code)"

definition isSuccessStatus :: "Monitor \<Rightarrow> int \<Rightarrow> bool" where
  "isSuccessStatus m code =
     (if length (UpStatusCodes (config m)) = 0 then 200 \<le> code \<and> code < 300
      else rangeCodes (UpStatusCodes (config m)) code)"

section \<open>Effects\<close>

text \<open>
  The effects of a check are recorded in the order in which they happen. The world
  counts the calls of \<^verbatim>\<open>time.Now()\<close> so far and holds the trace of events.
\<close>

datatype event =
    EvNow Time
  | EvDo Request "error + Response"
  | EvCopy
  | EvClose
  | EvSystemCertPool
  | EvVerify Certificate VerifyOptions

record World =
  ticks :: nat
  trace :: "event list"

definition emit :: "event \<Rightarrow> World \<Rightarrow> World" where
  "emit e w = w\<lparr>trace := trace w @ [e]\<rparr>"

text \<open>\<^verbatim>\<open>time.Now()\<close>: the next reading of the clock, with its monotonic part.\<close>

definition Now :: "Env \<Rightarrow> World \<Rightarrow> Time \<times> World" where
  "Now env w =
     (let t = \<lparr>wall = fst (clock env (ticks w)), mono = Some (snd (clock env (ticks w)))\<rparr>
      in (t, emit (EvNow t) (w\<lparr>ticks := Suc (ticks w)\<rparr>)))"

text \<open>\<^verbatim>\<open>client.Do(req)\<close>.\<close>

definition Do :: "Env \<Rightarrow> Client \<Rightarrow> Request \<Rightarrow> World \<Rightarrow> (error + Response) \<times> World" where
  "Do env c req w = (Client_Do env c req, emit (EvDo req (Client_Do env c req)) w)"

text \<open>\<^verbatim>\<open>io.Copy(io.Discard, resp.Body)\<close>: the number of bytes read and the error.\<close>

definition Copy_Discard :: "Response \<Rightarrow> World \<Rightarrow> (nat \<times> error option) \<times> World" where
  "Copy_Discard resp w = ((length (fst (Body resp)), snd (Body resp)), emit EvCopy w)"

definition loadSystemCertPool :: "Env \<Rightarrow> World \<Rightarrow> (error + CertPool) \<times> World" where
  "loadSystemCertPool env w = (SystemCertPool env, emit EvSystemCertPool w)"

definition Verify ::
  "Env \<Rightarrow> Certificate \<Rightarrow> VerifyOptions \<Rightarrow> World \<Rightarrow> error option \<times> World" where
  "Verify env cert opts w = (Certificate_Verify env cert opts, emit (EvVerify cert opts) w)"

text \<open>A call either returns or panics (an index out of range).\<close>

datatype 'a outcome = Panic | Returns 'a

section \<open>Certificate inspection\<close>

definition certInfo ::
  "Env \<Rightarrow> ConnectionState \<Rightarrow> string \<Rightarrow> World \<Rightarrow> (CertInfo \<times> World) outcome" where
  "certInfo env tlsState host w0 =
     (if \<not> 0 < length (PeerCertificates tlsState) then Panic
      else
        let cert = PeerCertificates tlsState ! 0;
            certInfo0 = \<lparr>CertInfo.Subject = Name_String env (Certificate.Subject cert),
                         Issuer = Name_String env (Certificate.Issuer cert),
                         ValidFrom = NotBefore cert,
                         ValidTo = NotAfter cert,
                         DNSNames = Certificate.DNSNames cert,
                         IsValid = True,
                         ErrorMsg = ''''\<rparr>;
            (now, w1) = Now env w0
        in if Before now (NotBefore cert) then
             Returns (certInfo0\<lparr>IsValid := False,
                        ErrorMsg := Sprintf ''certificate not yet valid: %s''
                                      [Time_String env (NotBefore cert)]\<rparr>, w1)
           else if After now (NotAfter cert) then
             Returns (certInfo0\<lparr>IsValid := False,
                        ErrorMsg := Sprintf ''certificate has expired: %s''
                                      [Time_String env (NotAfter cert)]\<rparr>, w1)
           else
             (case loadSystemCertPool env w1 of
                (Inl err, w2) \<Rightarrow>
                  Returns (certInfo0\<lparr>IsValid := False,
                             ErrorMsg := Sprintf ''error loading system root certificates: %v''
                                           [Error env err]\<rparr>, w2)
              | (Inr roots, w2) \<Rightarrow>
                  let opts = \<lparr>DNSName = host, Roots = roots,
                              Intermediates = fold (\<lambda>c pool. AddCert pool c)
                                                (drop 1 (PeerCertificates tlsState)) NewCertPool\<rparr>
                  in (case Verify env cert opts w2 of
                        (Some err, w3) \<Rightarrow>
                          Returns (certInfo0\<lparr>IsValid := False,
                                     ErrorMsg := Sprintf ''hostname verification failed: %v''
                                                   [Error env err]\<rparr>, w3)
                      | (None, w3) \<Rightarrow> Returns (certInfo0, w3))))"

section \<open>The check\<close>

text \<open>
  \<^verbatim>\<open>Check\<close> returns a pointer to the result and an error; either may be nil. The body
  of the response is closed when the function returns, once the request has succeeded.
\<close>

definition Check ::
  "Env \<Rightarrow> Monitor \<Rightarrow> Context \<Rightarrow> World
     \<Rightarrow> ((CheckResult option \<times> error option) \<times> World) outcome" where
  "Check env m cx w0 =
     (let result0 = \<lparr>CheckResult.URL = Config.URL (config m), StatusCode = 0,
                      Start = zeroTime, End = zeroTime, CertInfo = None\<rparr>
      in case NewRequestWithContext env cx (Config.Method (config m)) (Config.URL (config m)) of
           Inl err \<Rightarrow>
             Returns ((None, Some (Errorf ''failed to create request for %q: %w''
                                     [OpQ (Config.URL (config m)), OpW err])), w0)
         | Inr req0 \<Rightarrow>
             let req1 = req0\<lparr>Header := Header_Set (Header req0) ''Cache-Control''
                                            ''no-cache, no-store, must-revalidate''\<rparr>;
                 req2 = req1\<lparr>Header := Header_Set (Header req1) ''Pragma'' ''no-cache''\<rparr>;
                 req3 = req2\<lparr>Header := Header_Set (Header req2) ''Expires'' ''0''\<rparr>;
                 (stamp, w1) = Now env w0;
                 req = req3\<lparr>Request.URL := (Request.URL req3)
                          \<lparr>RawQuery := Sprintf ''nocache=%d'' [Itoa (sint (UnixNano stamp))]\<rparr>\<rparr>;
                 (start, w2) = Now env w1;
                 result1 = result0\<lparr>Start := start\<rparr>;
                 (sent, w3) = Do env (client m) req w2;
                 (finish, w4) = Now env w3;
                 result2 = result1\<lparr>End := finish\<rparr>
             in (case sent of
                   Inl err \<Rightarrow>
                     Returns ((None, Some (Errorf ''failed to send request for %q: %w''
                                             [OpQ (Config.URL (config m)), OpW err])), w4)
                 | Inr resp \<Rightarrow>
                     let result3 = result2\<lparr>CheckResult.StatusCode := Response.StatusCode resp\<rparr>
                     in (case Copy_Discard resp w4 of
                           ((n, Some err), w5) \<Rightarrow>
                             Returns ((None, Some (Errorf ''failed to read response body for %q: %w''
                                                     [OpQ (Config.URL (config m)), OpW err])),
                                      emit EvClose w5)
                         | ((n, None), w5) \<Rightarrow>
                             (case TLS resp of
                                None \<Rightarrow> Returns ((Some result3, None), emit EvClose w5)
                              | Some tlsState \<Rightarrow>
                                  if 0 < length (PeerCertificates tlsState) then
                                    (case certInfo env tlsState
                                            (URL_Hostname env (Request.URL (Request resp))) w5 of
                                       Panic \<Rightarrow> Panic
                                     | Returns (ci, w6) \<Rightarrow>
                                         Returns ((Some (result3\<lparr>CertInfo := Some ci\<rparr>), None),
                                                  emit EvClose w6))
                                  else Returns ((Some result3, None), emit EvClose w5)))))"

section \<open>Observations on a run\<close>

text \<open>The events a call adds to the trace.\<close>

definition newEvents :: "World \<Rightarrow> World \<Rightarrow> event list" where
  "newEvents w w' = drop (length (trace w)) (trace w')"

text \<open>The requests handed to the client, and the responses it returned.\<close>

fun sent :: "event list \<Rightarrow> Request list" where
  "sent [] = []"
| "sent (EvDo req r # es) = req # sent es"
| "sent (e # es) = sent es"

fun received :: "event list \<Rightarrow> Response list" where
  "received [] = []"
| "received (EvDo req (Inr resp) # es) = resp # received es"
| "received (e # es) = received es"

text \<open>The events of chain verification: loading the trust store and verifying.\<close>

fun verification :: "event \<Rightarrow> bool" where
  "verification EvSystemCertPool = True"
| "verification (EvVerify cert opts) = True"
| "verification e = False"

text \<open>
  The monotonic clock of the Go runtime never runs backwards: a later reading is not
  smaller than an earlier one. (The wall clock may be set back.)
\<close>

definition monotonic :: "Env \<Rightarrow> bool" where
  "monotonic env \<longleftrightarrow> (\<forall>i j. i \<le> j \<longrightarrow> snd (clock env i) \<le> snd (clock env j))"

section \<open>A sample environment\<close>

text \<open>
  A concrete environment on which the model runs. Its parser stands in for
  \<^verbatim>\<open>url.Parse\<close> on inputs of the shape \<^verbatim>\<open>scheme://host/path?query#fragment\<close>: it
  rejects an input that starts with a colon (a missing protocol scheme) and reads an
  input without \<^verbatim>\<open>://\<close> as a path. The network answers for four hosts; the clock
  advances one microsecond per reading.
\<close>

fun cut :: "char \<Rightarrow> string \<Rightarrow> string \<times> string" where
  "cut c [] = ([], [])"
| "cut c (x # xs) =
     (if x = c then ([], xs) else (case cut c xs of (a, b) \<Rightarrow> (x # a, b)))"

fun cutScheme :: "string \<Rightarrow> (string \<times> string) option" where
  "cutScheme [] = None"
| "cutScheme (x # xs) =
     (if x = CHR '':'' then
        (if take 2 xs = ''//'' then Some ([], drop 2 xs) else None)
      else (case cutScheme xs of
              None \<Rightarrow> None
            | Some (s, r) \<Rightarrow> Some (x # s, r)))"

definition sampleParse :: "string \<Rightarrow> error + URL" where
  "sampleParse s =
     (if take 1 s = '':'' then Inl (LibError ''missing protocol scheme'')
      else
        (case cut CHR ''#'' s of
           (u, frag) \<Rightarrow>
             (case cut CHR ''?'' u of
                (r, q) \<Rightarrow>
                  (case cutScheme r of
                     None \<Rightarrow>
                       Inr \<lparr>Scheme = '''', Host = '''', Path = r, RawQuery = q, Fragment = frag\<rparr>
                   | Some (sch, rest) \<Rightarrow>
                       Inr \<lparr>Scheme = sch, Host = takeWhile (\<lambda>c. c \<noteq> CHR ''/'') rest,
                            Path = dropWhile (\<lambda>c. c \<noteq> CHR ''/'') rest,
                            RawQuery = q, Fragment = frag\<rparr>))))"

definition sampleString :: "URL \<Rightarrow> string" where
  "sampleString u =
     (if Scheme u = '''' then '''' else Scheme u @ '':'')
     @ (if Host u = '''' then '''' else ''//'' @ Host u)
     @ Path u
     @ (if RawQuery u = '''' then '''' else ''?'' @ RawQuery u)
     @ (if Fragment u = '''' then '''' else ''#'' @ Fragment u)"

definition sampleNow :: int where
  "sampleNow = 1700000000000000000"

definition at :: "int \<Rightarrow> Time" where
  "at ns = \<lparr>wall = ns, mono = None\<rparr>"

definition day :: int where
  "day = 86400000000000"

definition leafFor :: "string \<Rightarrow> int \<Rightarrow> int \<Rightarrow> Certificate" where
  "leafFor name notBefore notAfter =
     \<lparr>Certificate.Subject = \<lparr>CommonName = name, Organization = []\<rparr>,
      Issuer = \<lparr>CommonName = ''Sample CA'', Organization = [''Sample'']\<rparr>,
      NotBefore = at notBefore, NotAfter = at notAfter,
      DNSNames = [name]\<rparr>"

definition sampleCA :: Certificate where
  "sampleCA =
     \<lparr>Certificate.Subject = \<lparr>CommonName = ''Sample CA'', Organization = [''Sample'']\<rparr>,
      Issuer = \<lparr>CommonName = ''Sample Root'', Organization = [''Sample'']\<rparr>,
      NotBefore = at (sampleNow - 1000 * day), NotAfter = at (sampleNow + 1000 * day),
      DNSNames = []\<rparr>"

definition sampleRoot :: Certificate where
  "sampleRoot =
     \<lparr>Certificate.Subject = \<lparr>CommonName = ''Sample Root'', Organization = [''Sample'']\<rparr>,
      Issuer = \<lparr>CommonName = ''Sample Root'', Organization = [''Sample'']\<rparr>,
      NotBefore = at (sampleNow - 5000 * day), NotAfter = at (sampleNow + 5000 * day),
      DNSNames = []\<rparr>"

text \<open>The chains the sample hosts present.\<close>

definition goodChain :: ConnectionState where
  "goodChain = \<lparr>PeerCertificates =
     [leafFor ''example.com'' (sampleNow - 30 * day) (sampleNow + 60 * day), sampleCA]\<rparr>"

definition expiredChain :: ConnectionState where
  "expiredChain = \<lparr>PeerCertificates =
     [leafFor ''expired.badssl.com'' (sampleNow - 400 * day) (sampleNow - 35 * day), sampleCA]\<rparr>"

definition wrongHostChain :: ConnectionState where
  "wrongHostChain = \<lparr>PeerCertificates =
     [leafFor ''badssl.com'' (sampleNow - 30 * day) (sampleNow + 60 * day), sampleCA]\<rparr>"

text \<open>A leaf whose window is inverted: it is both not yet valid and expired.\<close>

definition invertedChain :: ConnectionState where
  "invertedChain = \<lparr>PeerCertificates =
     [leafFor ''example.com'' (sampleNow + 30 * day) (sampleNow - 30 * day)]\<rparr>"

definition emptyChain :: ConnectionState where
  "emptyChain = \<lparr>PeerCertificates = []\<rparr>"

definition sampleDo :: "Client \<Rightarrow> Request \<Rightarrow> error + Response" where
  "sampleDo c req =
     (let host = Host (Request.URL req);
          https = (Scheme (Request.URL req) = ''https'');
          page = (''<html></html>'', None)
      in if Scheme (Request.URL req) \<noteq> ''http'' \<and> \<not> https then
           Inl (LibError ''unsupported protocol scheme'')
         else if host = ''example.com'' then
           Inr \<lparr>Response.StatusCode = 200,
                TLS = (if https then Some goodChain else None),
                Request = req, Body = page\<rparr>
         else if host = ''expired.badssl.com'' \<and> https then
           (if InsecureSkipVerify c then
              Inr \<lparr>Response.StatusCode = 200, TLS = Some expiredChain, Request = req, Body = page\<rparr>
            else Inl (LibError ''x509: certificate has expired or is not yet valid''))
         else if host = ''wrong.host.badssl.com'' \<and> https then
           (if InsecureSkipVerify c then
              Inr \<lparr>Response.StatusCode = 200, TLS = Some wrongHostChain, Request = req, Body = page\<rparr>
            else Inl (LibError ''x509: certificate is not valid for the requested name''))
         else if host = ''reset.example.com'' then
           Inr \<lparr>Response.StatusCode = 200, TLS = None, Request = req,
                Body = (''<html>'', Some (LibError ''unexpected EOF''))\<rparr>
         else Inl (LibError ''dial tcp: no such host''))"

definition sampleEnv :: Env where
  "sampleEnv =
     \<lparr>url_Parse = sampleParse,
      URL_String = sampleString,
      URL_Hostname = (\<lambda>u. takeWhile (\<lambda>c. c \<noteq> CHR '':'') (Host u)),
      Quote = (\<lambda>s. [CHR 0x22] @ s @ [CHR 0x22]),
      Time_String = (\<lambda>t. Itoa (wall t)),
      Name_String = (\<lambda>n. ''CN='' @ CommonName n),
      clock = (\<lambda>n. (sampleNow + 1000 * int n, 1000 * int n)),
      NewRequestWithContext = (\<lambda>cx method url.
         case sampleParse url of
           Inl err \<Rightarrow> Inl err
         | Inr u \<Rightarrow> Inr \<lparr>ctx = cx, Method = (if method = '''' then ''GET'' else method),
                         URL = u, Header = []\<rparr>),
      Client_Do = sampleDo,
      SystemCertPool = Inr [sampleRoot],
      Certificate_Verify = (\<lambda>cert opts.
         if DNSName opts \<in> set (Certificate.DNSNames cert) then None
         else Some (LibError ''x509: certificate is not valid for the requested name''))\<rparr>"

definition sampleConfig :: "string \<Rightarrow> Config" where
  "sampleConfig url =
     \<lparr>Config.URL = url, Method = ''GET'', RequestTimeout = 5 * Second, IgnoreCert = True,
      DontFollowRedirect = False, UpStatusCodes = [200], Headers = []\<rparr>"

text \<open>A monitor built directly, as the tests of the package do.\<close>

definition sampleMonitor :: "string \<Rightarrow> Monitor" where
  "sampleMonitor url =
     \<lparr>client = \<lparr>Timeout = 0, InsecureSkipVerify = True, CheckRedirect = None\<rparr>,
      config = sampleConfig url\<rparr>"

definition world0 :: World where
  "world0 = \<lparr>ticks = 0, trace = []\<rparr>"

section \<open>Properties\<close>

lemma rangeCodes_set: "rangeCodes cs code \<longleftrightarrow> code \<in> set cs"
  by (induction cs) auto

text \<open>The definitions that evaluate a run in the sample environment.\<close>

lemmas sample_defs = sampleEnv_def sampleMonitor_def sampleConfig_def sampleParse_def sampleDo_def
  world0_def goodChain_def expiredChain_def wrongHostChain_def invertedChain_def emptyChain_def
  leafFor_def sampleCA_def sampleRoot_def at_def sampleNow_def day_def

lemmas run_defs = Check_def certInfo_def Now_def Do_def Copy_Discard_def loadSystemCertPool_def
  Verify_def emit_def Let_def Before_def After_def NewCertPool_def AddCert_def newEvents_def

lemma sample_stamp:
  "sint (UnixNano \<lparr>wall = 1700000000000000000, mono = Some 0\<rparr>) = 1700000000000000000"
  by (simp add: UnixNano_def)

lemma Itoa_examples:
  "Itoa 1702592000000000000 = ''1702592000000000000''"
  "Itoa 1696976000000000000 = ''1696976000000000000''"
  "Itoa 1700000000000000000 = ''1700000000000000000''"
  by (simp_all add: Itoa_def digits.simps)

subsection \<open>Construction\<close>

lemma sanitizeURL_error_iff:
  "snd (sanitizeURL env rawURL) \<noteq> None \<longleftrightarrow>
     (\<exists>err. url_Parse env rawURL = Inl err) \<or>
     (\<exists>u. url_Parse env rawURL = Inr u \<and> (Scheme u = '''' \<or> Host u = ''''))"
  by (cases "url_Parse env rawURL") (auto simp: sanitizeURL_def)

lemma sanitizeURL_success:
  "url_Parse env rawURL = Inr u \<Longrightarrow> Scheme u \<noteq> '''' \<Longrightarrow> Host u \<noteq> '''' \<Longrightarrow>
     sanitizeURL env rawURL = (URL_String env u, None)"
  by (simp add: sanitizeURL_def)

lemma sint_ten_seconds: "sint (10 * Second) = 10000000000"
  by (simp add: Second_def)

lemma NewMonitor_unfold:
  "NewMonitor env cfg =
     (if Config.Method cfg = '''' then (None, Some (Errorf ''missing HTTP method'' []))
      else if sint (RequestTimeout cfg) < 0 then (None, Some (Errorf ''negative timeout'' []))
      else case snd (sanitizeURL env (Config.URL cfg)) of
             Some err \<Rightarrow> (None, Some (Errorf ''invalid URL: %w'' [OpW err]))
           | None \<Rightarrow>
               (Some \<lparr>client = \<lparr>Timeout = (if RequestTimeout cfg = 0 then 10 * Second
                                            else RequestTimeout cfg),
                                 InsecureSkipVerify = IgnoreCert cfg,
                                 CheckRedirect = (if DontFollowRedirect cfg then Some noRedirect
                                                  else None)\<rparr>,
                      config = cfg\<lparr>RequestTimeout := (if RequestTimeout cfg = 0 then 10 * Second
                                                       else RequestTimeout cfg),
                                    UpStatusCodes := (if UpStatusCodes cfg = [] then [200, 201]
                                                      else UpStatusCodes cfg),
                                    Config.URL := fst (sanitizeURL env (Config.URL cfg))\<rparr>\<rparr>,
                None))"
  by (auto simp: NewMonitor_def Let_def sint_ten_seconds split: prod.splits option.splits)

text \<open>
  Claim C3. \<open>NewMonitor\<close> returns an error exactly when the method is empty, or the
  timeout is negative, or the URL does not parse, or the parsed URL has no scheme or no
  host. It returns no monitor exactly when it returns an error. A timeout of zero, with
  a method and a URL that parses with a scheme and a host, gives a monitor whose
  configuration and client both carry the default of ten seconds.
\<close>

theorem NewMonitor_fails_iff:
  "(snd (NewMonitor env cfg) \<noteq> None \<longleftrightarrow>
      Config.Method cfg = '''' \<or> sint (RequestTimeout cfg) < 0 \<or>
      (\<exists>err. url_Parse env (Config.URL cfg) = Inl err) \<or>
      (\<exists>u. url_Parse env (Config.URL cfg) = Inr u \<and> (Scheme u = '''' \<or> Host u = '''')))
   \<and> (fst (NewMonitor env cfg) = None \<longleftrightarrow> snd (NewMonitor env cfg) \<noteq> None)
   \<and> (RequestTimeout cfg = 0 \<and> Config.Method cfg \<noteq> '''' \<and>
        url_Parse env (Config.URL cfg) = Inr u \<and> Scheme u \<noteq> '''' \<and> Host u \<noteq> '''' \<longrightarrow>
        (\<exists>m. NewMonitor env cfg = (Some m, None) \<and> RequestTimeout (config m) = 10 * Second
              \<and> Timeout (client m) = 10 * Second))"
  using sanitizeURL_error_iff [of env "Config.URL cfg"]
  by (auto simp: NewMonitor_unfold split: option.splits)

lemma sampleParse_example:
  "sampleParse ''https://example.com'' =
     Inr \<lparr>Scheme = ''https'', Host = ''example.com'', Path = '''', RawQuery = '''', Fragment = ''''\<rparr>"
  by (simp add: sampleParse_def)

theorem NewMonitor_fails_iff_witness:
  "RequestTimeout ((sampleConfig ''https://example.com'')\<lparr>RequestTimeout := 0\<rparr>) = 0
   \<and> Config.Method ((sampleConfig ''https://example.com'')\<lparr>RequestTimeout := 0\<rparr>) \<noteq> ''''
   \<and> url_Parse sampleEnv (Config.URL ((sampleConfig ''https://example.com'')\<lparr>RequestTimeout := 0\<rparr>))
       = Inr \<lparr>Scheme = ''https'', Host = ''example.com'', Path = '''', RawQuery = '''', Fragment = ''''\<rparr>
   \<and> (\<exists>m. NewMonitor sampleEnv ((sampleConfig ''https://example.com'')\<lparr>RequestTimeout := 0\<rparr>)
            = (Some m, None)
          \<and> RequestTimeout (config m) = 10 * Second \<and> Timeout (client m) = 10 * Second)
   \<and> snd (NewMonitor sampleEnv ((sampleConfig ''https://example.com'')\<lparr>RequestTimeout := - 5 * Second\<rparr>))
       \<noteq> None
   \<and> snd (NewMonitor sampleEnv ((sampleConfig ''https://example.com'')\<lparr>Config.Method := ''''\<rparr>))
       \<noteq> None
   \<and> snd (NewMonitor sampleEnv (sampleConfig ''invalid-url'')) \<noteq> None"
proof -
  let ?c = "(sampleConfig ''https://example.com'')\<lparr>RequestTimeout := 0\<rparr>"
  let ?u = "\<lparr>Scheme = ''https'', Host = ''example.com'', Path = '''', RawQuery = '''', Fragment = ''''\<rparr>"
  have h: "RequestTimeout ?c = 0 \<and> Config.Method ?c \<noteq> '''' \<and>
           url_Parse sampleEnv (Config.URL ?c) = Inr ?u \<and> Scheme ?u \<noteq> '''' \<and> Host ?u \<noteq> ''''"
    by (simp add: sampleConfig_def sampleEnv_def sampleParse_example)
  have neg: "sint (RequestTimeout ((sampleConfig ''https://example.com'')\<lparr>RequestTimeout := - 5 * Second\<rparr>)) < 0"
    by (simp add: Second_def)
  have bad: "url_Parse sampleEnv (Config.URL (sampleConfig ''invalid-url'')) =
               Inr \<lparr>Scheme = '''', Host = '''', Path = ''invalid-url'', RawQuery = '''', Fragment = ''''\<rparr>"
    by (simp add: sampleConfig_def sampleEnv_def sampleParse_def)
  show ?thesis
    using h neg bad
      NewMonitor_fails_iff [of sampleEnv ?c ?u]
      NewMonitor_fails_iff [of sampleEnv "(sampleConfig ''https://example.com'')\<lparr>RequestTimeout := - 5 * Second\<rparr>"]
      NewMonitor_fails_iff [of sampleEnv "(sampleConfig ''https://example.com'')\<lparr>Config.Method := ''''\<rparr>"]
      NewMonitor_fails_iff [of sampleEnv "sampleConfig ''invalid-url''"]
    by simp
qed

text \<open>
  Claim C8. \<open>sanitizeURL\<close> returns an error exactly when the URL does not parse or the
  parsed URL has an empty scheme or an empty host. Otherwise it returns the
  serialisation of the parsed URL, and this string is the URL in the configuration of
  every monitor that \<open>NewMonitor\<close> returns.
\<close>

theorem sanitizeURL_spec:
  "(snd (sanitizeURL env rawURL) \<noteq> None \<longleftrightarrow>
      (\<exists>err. url_Parse env rawURL = Inl err) \<or>
      (\<exists>u. url_Parse env rawURL = Inr u \<and> (Scheme u = '''' \<or> Host u = '''')))
   \<and> (\<forall>u. url_Parse env rawURL = Inr u \<and> Scheme u \<noteq> '''' \<and> Host u \<noteq> '''' \<longrightarrow>
          sanitizeURL env rawURL = (URL_String env u, None))
   \<and> (\<forall>m. fst (NewMonitor env cfg) = Some m \<longrightarrow>
          (\<exists>u. url_Parse env (Config.URL cfg) = Inr u \<and> Scheme u \<noteq> '''' \<and> Host u \<noteq> ''''
               \<and> Config.URL (config m) = URL_String env u))"
proof (intro conjI allI impI)
  show "snd (sanitizeURL env rawURL) \<noteq> None \<longleftrightarrow>
      (\<exists>err. url_Parse env rawURL = Inl err) \<or>
      (\<exists>u. url_Parse env rawURL = Inr u \<and> (Scheme u = '''' \<or> Host u = ''''))"
    by (rule sanitizeURL_error_iff)
next
  fix u
  assume "url_Parse env rawURL = Inr u \<and> Scheme u \<noteq> '''' \<and> Host u \<noteq> ''''"
  then show "sanitizeURL env rawURL = (URL_String env u, None)"
    by (simp add: sanitizeURL_success)
next
  fix m
  assume ok: "fst (NewMonitor env cfg) = Some m"
  then have none: "snd (sanitizeURL env (Config.URL cfg)) = None"
    and url: "Config.URL (config m) = fst (sanitizeURL env (Config.URL cfg))"
    by (auto simp: NewMonitor_unfold split: if_splits option.splits)
  from none obtain u where u: "url_Parse env (Config.URL cfg) = Inr u"
    "Scheme u \<noteq> ''''" "Host u \<noteq> ''''"
    using sanitizeURL_error_iff [of env "Config.URL cfg"] by (cases "url_Parse env (Config.URL cfg)") auto
  with url show "\<exists>u. url_Parse env (Config.URL cfg) = Inr u \<and> Scheme u \<noteq> '''' \<and> Host u \<noteq> ''''
               \<and> Config.URL (config m) = URL_String env u"
    by (simp add: sanitizeURL_success)
qed

theorem sanitizeURL_spec_witness:
  "url_Parse sampleEnv ''https://example.com'' =
     Inr \<lparr>Scheme = ''https'', Host = ''example.com'', Path = '''', RawQuery = '''', Fragment = ''''\<rparr>
   \<and> sanitizeURL sampleEnv ''https://example.com'' = (''https://example.com'', None)
   \<and> snd (sanitizeURL sampleEnv ''example.com'') \<noteq> None
   \<and> snd (sanitizeURL sampleEnv ''https://'') \<noteq> None
   \<and> snd (sanitizeURL sampleEnv ''://example.com'') \<noteq> None
   \<and> fst (NewMonitor sampleEnv (sampleConfig ''https://example.com'')) \<noteq> None
   \<and> Config.URL (config (the (fst (NewMonitor sampleEnv (sampleConfig ''https://example.com'')))))
       = ''https://example.com''"
proof -
  let ?u = "\<lparr>Scheme = ''https'', Host = ''example.com'', Path = '''', RawQuery = '''', Fragment = ''''\<rparr>"
  have p: "url_Parse sampleEnv ''https://example.com'' = Inr ?u"
    by (simp add: sampleEnv_def sampleParse_example)
  have s: "URL_String sampleEnv ?u = ''https://example.com''"
    by (simp add: sampleEnv_def sampleString_def)
  have p1: "url_Parse sampleEnv ''example.com'' =
              Inr \<lparr>Scheme = '''', Host = '''', Path = ''example.com'', RawQuery = '''', Fragment = ''''\<rparr>"
    by (simp add: sampleEnv_def sampleParse_def)
  have p2: "url_Parse sampleEnv ''https://'' =
              Inr \<lparr>Scheme = ''https'', Host = '''', Path = '''', RawQuery = '''', Fragment = ''''\<rparr>"
    by (simp add: sampleEnv_def sampleParse_def)
  have p3: "url_Parse sampleEnv ''://example.com'' = Inl (LibError ''missing protocol scheme'')"
    by (simp add: sampleEnv_def sampleParse_def)
  have m: "fst (NewMonitor sampleEnv (sampleConfig ''https://example.com'')) \<noteq> None"
    using p by (simp add: NewMonitor_unfold sanitizeURL_def sampleConfig_def Second_def)
  have c: "Config.URL (sampleConfig ''https://example.com'') = ''https://example.com''"
    by (simp add: sampleConfig_def)
  show ?thesis
    using p s p1 p2 p3 m c
      sanitizeURL_spec [of sampleEnv "''https://example.com''" "sampleConfig ''https://example.com''"]
      sanitizeURL_spec [of sampleEnv "''example.com''" "sampleConfig ''https://example.com''"]
      sanitizeURL_spec [of sampleEnv "''https://''" "sampleConfig ''https://example.com''"]
      sanitizeURL_spec [of sampleEnv "''://example.com''" "sampleConfig ''https://example.com''"]
    by auto
qed

text \<open>
  Claim C2, as amended. When the set of accepted codes is \<open>{200}\<close>, a code is up
  exactly when it is 200. A monitor that \<open>NewMonitor\<close> builds from a configuration
  without accepted codes holds the codes \<open>[200, 201]\<close>, and a code is up exactly when it
  is 200 or 201. \<open>NewMonitor\<close> keeps a list of accepted codes that is not empty as it is,
  so the list of a monitor it builds is never empty, and a code is up exactly when it is
  in that list. The range from 200 to 299 applies exactly to a monitor whose stored list
  is empty; with a stored list that is not empty, a code is up exactly when it is in the
  list.
\<close>

theorem isSuccessStatus_classes:
  "(set (UpStatusCodes (config m)) = {200} \<longrightarrow> (isSuccessStatus m code \<longleftrightarrow> code = 200))
   \<and> (UpStatusCodes cfg = [] \<and> fst (NewMonitor env cfg) = Some m' \<longrightarrow>
        UpStatusCodes (config m') = [200, 201] \<and>
        (isSuccessStatus m' code \<longleftrightarrow> code = 200 \<or> code = 201))
   \<and> (UpStatusCodes cfg \<noteq> [] \<and> fst (NewMonitor env cfg) = Some m' \<longrightarrow>
        UpStatusCodes (config m') = UpStatusCodes cfg)
   \<and> (fst (NewMonitor env cfg) = Some m' \<longrightarrow>
        UpStatusCodes (config m') \<noteq> [] \<and>
        (isSuccessStatus m' code \<longleftrightarrow> code \<in> set (UpStatusCodes (config m'))))
   \<and> (UpStatusCodes (config m) = [] \<longrightarrow>
        (isSuccessStatus m code \<longleftrightarrow> 200 \<le> code \<and> code < 300))
   \<and> (UpStatusCodes (config m) \<noteq> [] \<longrightarrow>
        (isSuccessStatus m code \<longleftrightarrow> code \<in> set (UpStatusCodes (config m))))"
proof -
  have stored: "UpStatusCodes (config m') =
                  (if UpStatusCodes cfg = [] then [200, 201] else UpStatusCodes cfg)"
    if "fst (NewMonitor env cfg) = Some m'"
    using that by (auto simp: NewMonitor_unfold split: if_splits option.splits)
  have member: "isSuccessStatus x code \<longleftrightarrow> code \<in> set (UpStatusCodes (config x))"
    if "UpStatusCodes (config x) \<noteq> []" for x
    using that by (simp add: isSuccessStatus_def rangeCodes_set)
  have range: "isSuccessStatus m code \<longleftrightarrow> 200 \<le> code \<and> code < 300"
    if "UpStatusCodes (config m) = []"
    using that by (simp add: isSuccessStatus_def)
  have c1: "set (UpStatusCodes (config m)) = {200} \<longrightarrow> (isSuccessStatus m code \<longleftrightarrow> code = 200)"
    by (auto simp: isSuccessStatus_def rangeCodes_set)
  have c2: "UpStatusCodes cfg = [] \<and> fst (NewMonitor env cfg) = Some m' \<longrightarrow>
              UpStatusCodes (config m') = [200, 201] \<and>
              (isSuccessStatus m' code \<longleftrightarrow> code = 200 \<or> code = 201)"
    using stored member [of m'] by auto
  have c3: "UpStatusCodes cfg \<noteq> [] \<and> fst (NewMonitor env cfg) = Some m' \<longrightarrow>
              UpStatusCodes (config m') = UpStatusCodes cfg"
    using stored by auto
  have c4: "fst (NewMonitor env cfg) = Some m' \<longrightarrow>
              UpStatusCodes (config m') \<noteq> [] \<and>
              (isSuccessStatus m' code \<longleftrightarrow> code \<in> set (UpStatusCodes (config m')))"
    using stored member [of m'] by auto
  have c5: "UpStatusCodes (config m) = [] \<longrightarrow>
              (isSuccessStatus m code \<longleftrightarrow> 200 \<le> code \<and> code < 300)"
    using range by blast
  have c6: "UpStatusCodes (config m) \<noteq> [] \<longrightarrow>
              (isSuccessStatus m code \<longleftrightarrow> code \<in> set (UpStatusCodes (config m)))"
    using member [of m] by blast
  from c1 c2 c3 c4 c5 c6 show ?thesis by (intro conjI)
qed

theorem isSuccessStatus_classes_witness:
  "set (UpStatusCodes (config (sampleMonitor ''https://example.com''))) = {200}
   \<and> isSuccessStatus (sampleMonitor ''https://example.com'') 200
   \<and> \<not> isSuccessStatus (sampleMonitor ''https://example.com'') 204
   \<and> UpStatusCodes ((sampleConfig ''https://example.com'')\<lparr>UpStatusCodes := []\<rparr>) = []
   \<and> fst (NewMonitor sampleEnv ((sampleConfig ''https://example.com'')\<lparr>UpStatusCodes := []\<rparr>)) \<noteq> None
   \<and> UpStatusCodes (config
         (the (fst (NewMonitor sampleEnv ((sampleConfig ''https://example.com'')\<lparr>UpStatusCodes := []\<rparr>)))))
       = [200, 201]
   \<and> isSuccessStatus
         (the (fst (NewMonitor sampleEnv ((sampleConfig ''https://example.com'')\<lparr>UpStatusCodes := []\<rparr>)))) 201
   \<and> \<not> isSuccessStatus
         (the (fst (NewMonitor sampleEnv ((sampleConfig ''https://example.com'')\<lparr>UpStatusCodes := []\<rparr>)))) 204
   \<and> UpStatusCodes (sampleConfig ''https://example.com'') \<noteq> []
   \<and> fst (NewMonitor sampleEnv (sampleConfig ''https://example.com'')) \<noteq> None
   \<and> UpStatusCodes (config (the (fst (NewMonitor sampleEnv (sampleConfig ''https://example.com'')))))
       = [200]
   \<and> \<not> isSuccessStatus (the (fst (NewMonitor sampleEnv (sampleConfig ''https://example.com'')))) 201
   \<and> UpStatusCodes (config ((sampleMonitor ''https://example.com'')
         \<lparr>config := (sampleConfig ''https://example.com'')\<lparr>UpStatusCodes := []\<rparr>\<rparr>)) = []
   \<and> isSuccessStatus ((sampleMonitor ''https://example.com'')
         \<lparr>config := (sampleConfig ''https://example.com'')\<lparr>UpStatusCodes := []\<rparr>\<rparr>) 204"
proof -
  let ?c = "(sampleConfig ''https://example.com'')\<lparr>UpStatusCodes := []\<rparr>"
  let ?d = "sampleConfig ''https://example.com''"
  let ?m = "sampleMonitor ''https://example.com''"
  let ?e = "?m\<lparr>config := ?c\<rparr>"
  have a: "set (UpStatusCodes (config ?m)) = {200}"
    by (simp add: sampleMonitor_def sampleConfig_def)
  have b: "UpStatusCodes ?c = []" by simp
  have d: "UpStatusCodes ?d = [200]" by (simp add: sampleConfig_def)
  have p: "url_Parse sampleEnv ''https://example.com'' =
     Inr \<lparr>Scheme = ''https'', Host = ''example.com'', Path = '''', RawQuery = '''', Fragment = ''''\<rparr>"
    by (simp add: sampleEnv_def sampleParse_example)
  have "fst (NewMonitor sampleEnv ?c) \<noteq> None"
    using p by (simp add: NewMonitor_unfold sanitizeURL_def sampleConfig_def Second_def)
  then obtain m1 where m1: "fst (NewMonitor sampleEnv ?c) = Some m1" by auto
  have "fst (NewMonitor sampleEnv ?d) \<noteq> None"
    using p by (simp add: NewMonitor_unfold sanitizeURL_def sampleConfig_def Second_def)
  then obtain m2 where m2: "fst (NewMonitor sampleEnv ?d) = Some m2" by auto
  have e: "UpStatusCodes (config ?e) = []" by simp
  have w1: "isSuccessStatus ?m 200"
    using a isSuccessStatus_classes [where m = ?m and code = 200] by blast
  have w2: "\<not> isSuccessStatus ?m 204"
    using a isSuccessStatus_classes [where m = ?m and code = 204] by simp
  have w3: "UpStatusCodes (config m1) = [200, 201] \<and> isSuccessStatus m1 201"
    using b m1 isSuccessStatus_classes [where cfg = ?c and env = sampleEnv and m' = m1 and code = 201]
    by blast
  have w4: "\<not> isSuccessStatus m1 204"
    using b m1 isSuccessStatus_classes [where cfg = ?c and env = sampleEnv and m' = m1 and code = 204]
    by simp
  have w5: "UpStatusCodes (config m2) = [200]"
    using d m2 isSuccessStatus_classes [where cfg = ?d and env = sampleEnv and m' = m2 and code = 201]
    by simp
  have w6: "\<not> isSuccessStatus m2 201"
    using w5 m2 isSuccessStatus_classes [where cfg = ?d and env = sampleEnv and m' = m2 and code = 201]
    by simp
  have w7: "isSuccessStatus ?e 204"
    using e isSuccessStatus_classes [where m = ?e and code = 204] by simp
  show ?thesis
    using a b d m1 m2 e w1 w2 w3 w4 w5 w6 w7 by simp
qed

text \<open>
  The claim C2 as stated fails: built by \<open>NewMonitor\<close> from a configuration without
  accepted codes, the monitor classifies 204 as down.
\<close>

theorem default_range_counterexample:
  "UpStatusCodes ((sampleConfig ''https://example.com'')\<lparr>UpStatusCodes := []\<rparr>) = []
   \<and> fst (NewMonitor sampleEnv ((sampleConfig ''https://example.com'')\<lparr>UpStatusCodes := []\<rparr>)) \<noteq> None
   \<and> (200::int) \<le> 204 \<and> (204::int) < 300
   \<and> \<not> isSuccessStatus
         (the (fst (NewMonitor sampleEnv ((sampleConfig ''https://example.com'')\<lparr>UpStatusCodes := []\<rparr>)))) 204"
proof -
  have p: "url_Parse sampleEnv ''https://example.com'' =
     Inr \<lparr>Scheme = ''https'', Host = ''example.com'', Path = '''', RawQuery = '''', Fragment = ''''\<rparr>"
    by (simp add: sampleEnv_def sampleParse_example)
  show ?thesis
    using p by (simp add: NewMonitor_unfold sanitizeURL_def sampleConfig_def Second_def isSuccessStatus_def)
qed

subsection \<open>Certificate inspection\<close>

lemma Sprintf_formats:
  "Sprintf ''certificate not yet valid: %s'' [x] = ''certificate not yet valid: '' @ x"
  "Sprintf ''certificate has expired: %s'' [x] = ''certificate has expired: '' @ x"
  "Sprintf ''error loading system root certificates: %v'' [x] =
     ''error loading system root certificates: '' @ x"
  "Sprintf ''hostname verification failed: %v'' [x] = ''hostname verification failed: '' @ x"
  "Sprintf ''nocache=%d'' [x] = ''nocache='' @ x"
  by simp_all

lemma certInfo_Panic_iff:
  "certInfo env st host w = Panic \<longleftrightarrow> \<not> 0 < length (PeerCertificates st)"
  by (auto simp: certInfo_def Let_def Now_def loadSystemCertPool_def Verify_def
           split: prod.splits sum.splits option.splits)

text \<open>
  Claim C4. On a chain with a leaf, the rules apply in order and the first one wins.
  If the current time is before the leaf's not-before, the result is invalid, the
  message is "certificate not yet valid: " followed by the not-before time, and reading
  the clock is the only effect. Otherwise, if the current time is after the leaf's
  not-after, the result is invalid, the message is "certificate has expired: " followed
  by the not-after time, and reading the clock is again the only effect. The trust
  store is loaded or the chain verified exactly when the current time is neither
  before not-before nor after not-after.
\<close>

theorem certInfo_rule_order:
  "PeerCertificates st \<noteq> [] \<longrightarrow>
   (Before (fst (Now env w)) (NotBefore (PeerCertificates st ! 0)) \<longrightarrow>
      (\<exists>ci w'. certInfo env st host w = Returns (ci, w') \<and> \<not> IsValid ci \<and>
         ErrorMsg ci = ''certificate not yet valid: ''
                         @ Time_String env (NotBefore (PeerCertificates st ! 0)) \<and>
         newEvents w w' = [EvNow (fst (Now env w))]))
   \<and> (\<not> Before (fst (Now env w)) (NotBefore (PeerCertificates st ! 0)) \<and>
        After (fst (Now env w)) (NotAfter (PeerCertificates st ! 0)) \<longrightarrow>
      (\<exists>ci w'. certInfo env st host w = Returns (ci, w') \<and> \<not> IsValid ci \<and>
         ErrorMsg ci = ''certificate has expired: ''
                         @ Time_String env (NotAfter (PeerCertificates st ! 0)) \<and>
         newEvents w w' = [EvNow (fst (Now env w))]))
   \<and> (\<forall>ci w'. certInfo env st host w = Returns (ci, w') \<longrightarrow>
        ((\<exists>e \<in> set (newEvents w w'). verification e) \<longleftrightarrow>
           \<not> Before (fst (Now env w)) (NotBefore (PeerCertificates st ! 0)) \<and>
           \<not> After (fst (Now env w)) (NotAfter (PeerCertificates st ! 0))))"
  by (auto simp: certInfo_def Let_def Now_def loadSystemCertPool_def Verify_def emit_def
                 newEvents_def Sprintf_formats
           split: prod.splits sum.splits option.splits if_splits)

theorem certInfo_rule_order_witness:
  "PeerCertificates invertedChain \<noteq> []
   \<and> Before (fst (Now sampleEnv world0)) (NotBefore (PeerCertificates invertedChain ! 0))
   \<and> After (fst (Now sampleEnv world0)) (NotAfter (PeerCertificates invertedChain ! 0))
   \<and> (\<exists>ci w'. certInfo sampleEnv invertedChain ''example.com'' world0 = Returns (ci, w') \<and>
         \<not> IsValid ci \<and> ErrorMsg ci = ''certificate not yet valid: 1702592000000000000'' \<and>
         newEvents world0 w' = [EvNow (fst (Now sampleEnv world0))])
   \<and> PeerCertificates expiredChain \<noteq> []
   \<and> \<not> Before (fst (Now sampleEnv world0)) (NotBefore (PeerCertificates expiredChain ! 0))
   \<and> After (fst (Now sampleEnv world0)) (NotAfter (PeerCertificates expiredChain ! 0))
   \<and> (\<exists>ci w'. certInfo sampleEnv expiredChain ''expired.badssl.com'' world0 = Returns (ci, w') \<and>
         \<not> IsValid ci \<and> ErrorMsg ci = ''certificate has expired: 1696976000000000000'' \<and>
         newEvents world0 w' = [EvNow (fst (Now sampleEnv world0))])
   \<and> (\<exists>ci w'. certInfo sampleEnv goodChain ''example.com'' world0 = Returns (ci, w') \<and>
         (\<exists>e \<in> set (newEvents world0 w'). verification e))"
  using certInfo_rule_order [where st = invertedChain and env = sampleEnv and w = world0
                               and host = "''example.com''"]
        certInfo_rule_order [where st = expiredChain and env = sampleEnv and w = world0
                               and host = "''expired.badssl.com''"]
        certInfo_rule_order [where st = goodChain and env = sampleEnv and w = world0
                               and host = "''example.com''"]
  by (simp add: sample_defs run_defs Itoa_examples)

text \<open>
  Claim C6. On a chain with a leaf, \<open>certInfo\<close> returns a structure for every host. Its
  subject, issuer, validity window and DNS names are those of the leaf. It is valid
  exactly when its message is empty, and exactly when the current time is within the
  window, the trust store loads and verification of the leaf, with the remaining
  certificates as intermediates and the host as the name, reports no error.
\<close>

theorem certInfo_total:
  "PeerCertificates st \<noteq> [] \<longrightarrow>
   (\<exists>ci w'. certInfo env st host w = Returns (ci, w') \<and>
      CertInfo.Subject ci = Name_String env (Certificate.Subject (PeerCertificates st ! 0)) \<and>
      CertInfo.Issuer ci = Name_String env (Certificate.Issuer (PeerCertificates st ! 0)) \<and>
      ValidFrom ci = NotBefore (PeerCertificates st ! 0) \<and>
      ValidTo ci = NotAfter (PeerCertificates st ! 0) \<and>
      CertInfo.DNSNames ci = Certificate.DNSNames (PeerCertificates st ! 0) \<and>
      (IsValid ci \<longleftrightarrow> ErrorMsg ci = '''') \<and>
      (IsValid ci \<longleftrightarrow>
         \<not> Before (fst (Now env w)) (NotBefore (PeerCertificates st ! 0)) \<and>
         \<not> After (fst (Now env w)) (NotAfter (PeerCertificates st ! 0)) \<and>
         (\<exists>roots. SystemCertPool env = Inr roots \<and>
            Certificate_Verify env (PeerCertificates st ! 0)
              \<lparr>DNSName = host, Roots = roots,
               Intermediates = fold (\<lambda>c pool. AddCert pool c)
                                 (drop 1 (PeerCertificates st)) NewCertPool\<rparr> = None)))"
  by (auto simp: certInfo_def Let_def Now_def loadSystemCertPool_def Verify_def emit_def
                 Sprintf_formats
           split: prod.splits sum.splits option.splits if_splits)


theorem certInfo_total_witness:
  "PeerCertificates goodChain \<noteq> []
   \<and> (\<exists>ci w'. certInfo sampleEnv goodChain ''example.com'' world0 = Returns (ci, w') \<and>
         CertInfo.Subject ci = ''CN=example.com'' \<and> CertInfo.Issuer ci = ''CN=Sample CA'' \<and>
         CertInfo.DNSNames ci = [''example.com''] \<and> IsValid ci \<and> ErrorMsg ci = '''')
   \<and> PeerCertificates wrongHostChain \<noteq> []
   \<and> (\<exists>ci w'. certInfo sampleEnv wrongHostChain ''wrong.host.badssl.com'' world0 = Returns (ci, w') \<and>
         CertInfo.Subject ci = ''CN=badssl.com'' \<and> \<not> IsValid ci \<and>
         ErrorMsg ci = ''hostname verification failed: x509: certificate is not valid for the requested name'')"
  using certInfo_total [where st = goodChain and env = sampleEnv and w = world0
                          and host = "''example.com''"]
        certInfo_total [where st = wrongHostChain and env = sampleEnv and w = world0
                          and host = "''wrong.host.badssl.com''"]
  by (simp add: sample_defs run_defs)

subsection \<open>The check\<close>

lemma sent_append [simp]: "sent (es @ fs) = sent es @ sent fs"
  by (induction es rule: sent.induct) auto

lemma received_append [simp]: "received (es @ fs) = received es @ received fs"
  by (induction es rule: received.induct) auto

lemma Do_in_sent: "EvDo req x \<in> set es \<Longrightarrow> req \<in> set (sent es)"
  by (induction es rule: sent.induct) auto

lemma sent_Nil_no_Do [simp]: "sent es = [] \<Longrightarrow> EvDo req x \<notin> set es"
  using Do_in_sent [of req x es] by auto

lemma certInfo_trace:
  "certInfo env st host w = Returns (ci, w') \<Longrightarrow>
     \<exists>es. trace w' = trace w @ es \<and> sent es = [] \<and> received es = []"
  by (auto simp: certInfo_def Let_def Now_def loadSystemCertPool_def Verify_def emit_def
           split: prod.splits sum.splits option.splits if_splits)

lemma Check_not_Panic: "Check env m cx w \<noteq> Panic"
  by (auto simp: Check_def Let_def Now_def Do_def Copy_Discard_def certInfo_Panic_iff
           split: prod.splits sum.splits option.splits outcome.splits)

text \<open>
  Claim C5. \<open>Check\<close> returns either a result and no error, or an error and no result.
  When the round trip fails, the error is the failure wrapped with the URL of the
  configuration; when reading the body fails, likewise. Every error that \<open>Check\<close>
  returns wraps a cause and quotes the URL of the configuration.
\<close>

theorem Check_all_or_nothing:
  "\<exists>r e w'. Check env m cx w = Returns ((r, e), w') \<and>
     ((r \<noteq> None \<and> e = None) \<or> (r = None \<and> e \<noteq> None)) \<and>
     (\<forall>req err. EvDo req (Inl err) \<in> set (newEvents w w') \<longrightarrow>
        r = None \<and>
        e = Some (Errorf ''failed to send request for %q: %w''
                    [OpQ (Config.URL (config m)), OpW err])) \<and>
     (\<forall>req resp err. EvDo req (Inr resp) \<in> set (newEvents w w') \<and> snd (Body resp) = Some err \<longrightarrow>
        r = None \<and>
        e = Some (Errorf ''failed to read response body for %q: %w''
                    [OpQ (Config.URL (config m)), OpW err])) \<and>
     (\<forall>err. e = Some err \<longrightarrow> Unwrap err \<noteq> None \<and> quotedIn err = [Config.URL (config m)])"
  by (auto simp: Check_def Let_def Now_def Do_def Copy_Discard_def emit_def newEvents_def
                 certInfo_Panic_iff
           split: prod.splits sum.splits option.splits outcome.splits
           dest!: certInfo_trace)

theorem Check_all_or_nothing_witness:
  "(\<exists>r w'. Check sampleEnv (sampleMonitor ''https://example.com'') Background world0
              = Returns ((Some r, None), w'))
   \<and> (\<exists>w' req. Check sampleEnv (sampleMonitor ''https://nonexistent.example.com'') Background world0
              = Returns ((None, Some (Errorf ''failed to send request for %q: %w''
                                        [OpQ ''https://nonexistent.example.com'',
                                         OpW (LibError ''dial tcp: no such host'')])), w')
          \<and> EvDo req (Inl (LibError ''dial tcp: no such host'')) \<in> set (newEvents world0 w'))
   \<and> (\<exists>w' req resp. Check sampleEnv (sampleMonitor ''http://reset.example.com/'') Background world0
              = Returns ((None, Some (Errorf ''failed to read response body for %q: %w''
                                        [OpQ ''http://reset.example.com/'',
                                         OpW (LibError ''unexpected EOF'')])), w')
          \<and> EvDo req (Inr resp) \<in> set (newEvents world0 w')
          \<and> snd (Body resp) = Some (LibError ''unexpected EOF''))"
  using Check_all_or_nothing [of sampleEnv "sampleMonitor ''https://example.com''" Background world0]
        Check_all_or_nothing [of sampleEnv "sampleMonitor ''https://nonexistent.example.com''"
                                 Background world0]
        Check_all_or_nothing [of sampleEnv "sampleMonitor ''http://reset.example.com/''"
                                 Background world0]
  by (simp add: sample_defs run_defs)

text \<open>
  Claim C7. When \<open>Check\<close> returns a result, the client has returned one response, and
  the result carries certificate information exactly when that response has a TLS state
  with at least one peer certificate.
\<close>

theorem Check_CertInfo_iff:
  "Check env m cx w = Returns ((Some r, e), w') \<longrightarrow>
     (\<exists>resp. received (newEvents w w') = [resp] \<and>
        (CertInfo r \<noteq> None \<longleftrightarrow>
           (\<exists>tlsState. TLS resp = Some tlsState \<and> 0 < length (PeerCertificates tlsState))))"
  by (auto simp: Check_def Let_def Now_def Do_def Copy_Discard_def emit_def newEvents_def
                 certInfo_Panic_iff
           split: prod.splits sum.splits option.splits outcome.splits if_splits
           dest!: certInfo_trace)

theorem Check_CertInfo_iff_witness:
  "(\<exists>r e w' resp. Check sampleEnv (sampleMonitor ''https://example.com'') Background world0
                    = Returns ((Some r, e), w')
        \<and> received (newEvents world0 w') = [resp] \<and> TLS resp = Some goodChain
        \<and> 0 < length (PeerCertificates goodChain) \<and> CertInfo r \<noteq> None)
   \<and> (\<exists>r e w' resp. Check sampleEnv (sampleMonitor ''http://example.com'') Background world0
                    = Returns ((Some r, e), w')
        \<and> received (newEvents world0 w') = [resp] \<and> TLS resp = None \<and> CertInfo r = None)"
proof -
  have "\<exists>r e w'. Check sampleEnv (sampleMonitor ''https://example.com'') Background world0
                   = Returns ((Some r, e), w')"
    by (simp add: sample_defs run_defs)
  then obtain r e w' where a: "Check sampleEnv (sampleMonitor ''https://example.com'') Background world0
                            = Returns ((Some r, e), w')"
    by blast
  have "\<exists>r e w'. Check sampleEnv (sampleMonitor ''http://example.com'') Background world0
                   = Returns ((Some r, e), w')"
    by (simp add: sample_defs run_defs)
  then obtain r2 e2 w2 where b: "Check sampleEnv (sampleMonitor ''http://example.com'') Background world0
                            = Returns ((Some r2, e2), w2)"
    by blast
  have t: "\<And>resp. received (newEvents world0 w') = [resp] \<Longrightarrow> TLS resp = Some goodChain"
    using a by (auto simp: sample_defs run_defs)
  have t2: "\<And>resp. received (newEvents world0 w2) = [resp] \<Longrightarrow> TLS resp = None"
    using b by (auto simp: sample_defs run_defs)
  have g: "0 < length (PeerCertificates goodChain)"
    by (simp add: goodChain_def)
  show ?thesis
    using a b t t2 g
      Check_CertInfo_iff [of sampleEnv "sampleMonitor ''https://example.com''" Background world0 r e w']
      Check_CertInfo_iff [of sampleEnv "sampleMonitor ''http://example.com''" Background world0 r2 e2 w2]
    by auto
qed

lemma sint_in_range:
  "- (2 ^ 63) \<le> d \<Longrightarrow> d \<le> 2 ^ 63 - 1 \<Longrightarrow> sint (word_of_int d :: 64 word) = d"
  by (simp add: sint_sbintrunc' signed_take_bit_int_eq_self)

lemma saturate_nonneg:
  assumes "0 \<le> d"
  shows "0 \<le> sint (if d < - (2 ^ 63) then word_of_int (- (2 ^ 63))
                    else if 2 ^ 63 - 1 < d then word_of_int (2 ^ 63 - 1)
                    else (word_of_int d :: 64 word))"
proof (cases "2 ^ 63 - 1 < d")
  case True
  have "sint (word_of_int (2 ^ 63 - 1) :: 64 word) = 2 ^ 63 - 1"
    by (rule sint_in_range) simp_all
  with True assms show ?thesis by simp
next
  case False
  with assms have "sint (word_of_int d :: 64 word) = d"
    by (intro sint_in_range) simp_all
  with False assms show ?thesis by simp
qed

lemma Sub_nonneg:
  "mono t = Some b \<Longrightarrow> mono u = Some a \<Longrightarrow> a \<le> b \<Longrightarrow> 0 \<le> sint (Sub t u)"
  using saturate_nonneg [of "b - a"] by (simp add: Sub_def Let_def)

text \<open>
  Claim C9. When \<open>Check\<close> returns a result, its start is the clock reading taken
  immediately before the round trip and its end the reading taken immediately after.
  With a monotonic clock that never runs backwards, the end is not before the start and
  the duration from start to end is not negative.
\<close>

theorem Check_Start_End:
  "Check env m cx w = Returns ((Some r, e), w') \<longrightarrow>
     (\<exists>stamp req resp rest.
        newEvents w w' = EvNow stamp # EvNow (Start r) # EvDo req resp # EvNow (End r) # rest)
     \<and> (monotonic env \<longrightarrow> \<not> Before (End r) (Start r) \<and> 0 \<le> sint (Sub (End r) (Start r)))"
proof (intro impI conjI)
  assume c: "Check env m cx w = Returns ((Some r, e), w')"
  let ?s = "\<lparr>wall = fst (clock env (Suc (ticks w))), mono = Some (snd (clock env (Suc (ticks w))))\<rparr>"
  let ?f = "\<lparr>wall = fst (clock env (Suc (Suc (ticks w)))),
             mono = Some (snd (clock env (Suc (Suc (ticks w)))))\<rparr>"
  from c have se: "Start r = ?s \<and> End r = ?f"
    by (auto simp: Check_def Let_def Now_def Do_def Copy_Discard_def emit_def
             split: prod.splits sum.splits option.splits outcome.splits if_splits)
  from c show "\<exists>stamp req resp rest.
        newEvents w w' = EvNow stamp # EvNow (Start r) # EvDo req resp # EvNow (End r) # rest"
    by (auto simp: Check_def Let_def Now_def Do_def Copy_Discard_def emit_def newEvents_def
             split: prod.splits sum.splits option.splits outcome.splits if_splits
             dest!: certInfo_trace)
  {
    assume "monotonic env"
    then have le: "snd (clock env (Suc (ticks w))) \<le> snd (clock env (Suc (Suc (ticks w))))"
      by (simp add: monotonic_def)
    from se le show "\<not> Before (End r) (Start r)"
      by (simp add: Before_def)
    from se le show "0 \<le> sint (Sub (End r) (Start r))"
      by (intro Sub_nonneg [where a = "snd (clock env (Suc (ticks w)))"
                              and b = "snd (clock env (Suc (Suc (ticks w))))"]) simp_all
  }
qed

lemma sample_monotonic: "monotonic sampleEnv"
  by (simp add: monotonic_def sampleEnv_def)

theorem Check_Start_End_witness:
  "monotonic sampleEnv
   \<and> (\<exists>r e w'. Check sampleEnv (sampleMonitor ''https://example.com'') Background world0
                  = Returns ((Some r, e), w')
         \<and> Start r = \<lparr>wall = 1700000000000001000, mono = Some 1000\<rparr>
         \<and> End r = \<lparr>wall = 1700000000000002000, mono = Some 2000\<rparr>
         \<and> \<not> Before (End r) (Start r) \<and> 0 \<le> sint (Sub (End r) (Start r)))"
proof -
  have "\<exists>r e w'. Check sampleEnv (sampleMonitor ''https://example.com'') Background world0
                   = Returns ((Some r, e), w')
          \<and> Start r = \<lparr>wall = 1700000000000001000, mono = Some 1000\<rparr>
          \<and> End r = \<lparr>wall = 1700000000000002000, mono = Some 2000\<rparr>"
    by (simp add: sample_defs run_defs)
  then obtain r e w' where a: "Check sampleEnv (sampleMonitor ''https://example.com'') Background world0
                            = Returns ((Some r, e), w')"
    and s: "Start r = \<lparr>wall = 1700000000000001000, mono = Some 1000\<rparr>"
    and f: "End r = \<lparr>wall = 1700000000000002000, mono = Some 2000\<rparr>"
    by blast
  show ?thesis
    using a s f sample_monotonic
      Check_Start_End [of sampleEnv "sampleMonitor ''https://example.com''" Background world0 r e w']
    by auto
qed

text \<open>
  Claim C1, as the code has it. When the request can be built, \<open>Check\<close> hands exactly one
  request to the client. Its three cache headers are set, and its query is the single
  parameter \<open>nocache\<close> with the time stamp, whatever the query of the configured URL was:
  apart from the headers and the query it is the request as built.
\<close>

theorem Check_request:
  "NewRequestWithContext env cx (Config.Method (config m)) (Config.URL (config m)) = Inr req0 \<longrightarrow>
   (\<exists>res w' req. Check env m cx w = Returns (res, w') \<and> sent (newEvents w w') = [req] \<and>
      RawQuery (Request.URL req) = ''nocache='' @ Itoa (sint (UnixNano (fst (Now env w)))) \<and>
      Header_Get (Header req) ''Cache-Control'' = Some [''no-cache, no-store, must-revalidate''] \<and>
      Header_Get (Header req) ''Pragma'' = Some [''no-cache''] \<and>
      Header_Get (Header req) ''Expires'' = Some [''0''] \<and>
      req = req0\<lparr>Header := Header req,
                  Request.URL := (Request.URL req0)\<lparr>RawQuery := RawQuery (Request.URL req)\<rparr>\<rparr>)"
  by (auto simp: Check_def Let_def Now_def Do_def Copy_Discard_def emit_def newEvents_def
                 certInfo_Panic_iff Header_Set_def Header_Get_def Sprintf_formats
           split: prod.splits sum.splits option.splits outcome.splits if_splits
           dest!: certInfo_trace)

theorem Check_request_witness:
  "NewRequestWithContext sampleEnv Background ''GET'' ''https://example.com/health?token=abc''
     = Inr \<lparr>ctx = Background, Method = ''GET'',
            URL = \<lparr>Scheme = ''https'', Host = ''example.com'', Path = ''/health'',
                   RawQuery = ''token=abc'', Fragment = ''''\<rparr>,
            Header = []\<rparr>
   \<and> (\<exists>res w' req.
         Check sampleEnv (sampleMonitor ''https://example.com/health?token=abc'') Background world0
           = Returns (res, w')
         \<and> sent (newEvents world0 w') = [req]
         \<and> Request.URL req = \<lparr>Scheme = ''https'', Host = ''example.com'', Path = ''/health'',
                               RawQuery = ''nocache=1700000000000000000'', Fragment = ''''\<rparr>
         \<and> Header_Get (Header req) ''Pragma'' = Some [''no-cache''])"
  using Check_request [of sampleEnv Background "sampleMonitor ''https://example.com/health?token=abc''"
          "\<lparr>ctx = Background, Method = ''GET'',
            URL = \<lparr>Scheme = ''https'', Host = ''example.com'', Path = ''/health'',
                   RawQuery = ''token=abc'', Fragment = ''''\<rparr>,
            Header = []\<rparr>" world0]
  by (simp add: sample_defs run_defs sample_stamp Itoa_examples Header_Get_def Header_Set_def)

text \<open>
  Claim C10. \<open>certInfo\<close> panics exactly when the chain of peer certificates is empty, and
  \<open>Check\<close> never panics: it calls \<open>certInfo\<close> only on a chain with a leaf.
\<close>

theorem certInfo_index_guarded:
  "(certInfo env tlsState host w = Panic \<longleftrightarrow> \<not> 0 < length (PeerCertificates tlsState))
   \<and> Check env m cx w0 \<noteq> Panic"
  by (simp add: certInfo_Panic_iff Check_not_Panic)


theorem certInfo_index_guarded_witness:
  "certInfo sampleEnv emptyChain ''example.com'' world0 = Panic
   \<and> \<not> 0 < length (PeerCertificates emptyChain)
   \<and> certInfo sampleEnv goodChain ''example.com'' world0 \<noteq> Panic
   \<and> Check sampleEnv (sampleMonitor ''https://example.com'') Background world0 \<noteq> Panic"
  using certInfo_index_guarded [of sampleEnv emptyChain "''example.com''" world0
          "sampleMonitor ''https://example.com''" Background world0]
        certInfo_index_guarded [of sampleEnv goodChain "''example.com''" world0
          "sampleMonitor ''https://example.com''" Background world0]
  by (simp add: emptyChain_def goodChain_def)

end
